theory Spec2Isabelle
  imports Main "HOL-Library.AList"
begin

section \<open>HarmonyLink: the Player state machine and the LavalinkV4 node driver\<close>

text \<open>
  A shallow embedding of \<^verbatim>\<open>class Player\<close> (the per-guild playback state machine) and of
  \<^verbatim>\<open>class LavalinkV4\<close> (the node driver). Mutation of \<^verbatim>\<open>this\<close> is explicit state
  passing. A rejected promise or a thrown exception is a value \<open>Inl e\<close>, returned together
  with the state as the code left it when it threw. Everything the player does to its
  collaborators (REST calls to the node, events emitted on the manager, voice packets sent
  to Discord, the manager's player registry) is appended to a trace; what the collaborators
  answer is read from an environment, which may depend on the trace so far. The manager's
  \<^verbatim>\<open>debug\<close> events are left out of the trace.
\<close>

subsection \<open>Data model\<close>

text \<open>
  The enums of \<^verbatim>\<open>@t/player\<close> and \<^verbatim>\<open>@t/player/connection\<close>. \<open>SESSION_OTHER\<close> stands for
  every status that \<^verbatim>\<open>connect\<close> does not name in its switch.
\<close>

datatype PlayerConnectionState = CONNECTING | CONNECTED | DISCONNECTED | DESTROYED

datatype VoiceConnectionState = VOICE_CONNECTING | VOICE_CONNECTED | VOICE_DISCONNECTED

datatype PlayerLoop = NONE | TRACK | QUEUE

datatype DiscordVoiceStates =
  SESSION_READY | SESSION_ID_MISSING | SESSION_ENDPOINT_MISSING | SESSION_OTHER

text \<open>
  A \<^verbatim>\<open>Track\<close>: \<open>track\<close> is the encoded payload (\<open>None\<close> while the track is unresolved),
  the \<open>info_\<close> fields are those of \<^verbatim>\<open>track.info\<close> that the player reads.
\<close>

record Track =
  track :: "string option"
  info_title :: string
  info_sourceName :: string
  info_identifier :: string
  info_requester :: string

text \<open>
  The \<^verbatim>\<open>Queue\<close>: an array of pending tracks (\<open>items\<close>) with the two pointers
  \<^verbatim>\<open>currentTrack\<close> and \<^verbatim>\<open>previousTrack\<close>.
\<close>

record Queue =
  items :: "Track list"
  currentTrack :: "Track option"
  previousTrack :: "Track option"

record Response =
  tracks :: "Track list"
  loadType :: string

datatype playerOptions = TrackEncoded "string option" | Paused bool

record voicePacket =
  guild_id :: string
  channel_id :: "string option"
  self_deaf :: bool
  self_mute :: bool

datatype effect =
    RestUpdatePlayer string playerOptions
  | RestDestroyPlayer string
  | RestLoadTrack string string
  | Emit string
  | SendPacket string voicePacket
  | RegistryDelete string

datatype error =
    RestError
  | ResolveError
  | AutoplayError
  | PlayerDestroyedError
  | SessionIdMissingError
  | SessionEndpointMissingError
  | VoiceTimeoutError
  | ConnectionUpdateError

record Player =
  voiceChannelId :: string
  guildId :: string
  shardId :: string
  isConnected :: bool
  isPlaying :: bool
  isPaused :: bool
  state :: PlayerConnectionState
  voiceState :: VoiceConnectionState
  loop :: PlayerLoop
  isAutoplay :: bool
  ping :: int
  timestamp :: int
  position :: int
  queue :: Queue
  selfDeaf :: bool
  selfMute :: bool
  trace :: "effect list"

type_synonym 'a result = "(error + 'a) \<times> Player"

text \<open>What \<^verbatim>\<open>Player.once(this, 'connectionUpdate', {signal})\<close> settles with.\<close>

datatype handshake = Signal DiscordVoiceStates | Aborted | Rejected

text \<open>
  The collaborators. Each answer may depend on the trace so far. \<open>False\<close> or \<open>None\<close>
  is a rejected promise. \<open>queue_cleanUp\<close> and \<open>queue_add\<close> are the methods
  \<^verbatim>\<open>_cleanUp\<close> and \<^verbatim>\<open>add\<close> of the \<^verbatim>\<open>Queue\<close> class; \<open>customAutoplay\<close> is the user's
  resolver (\<open>None\<close> when not configured), which gets the player, may change it, and whose
  result is a \<^verbatim>\<open>Player\<close> instance or not; \<open>random\<close> is \<^verbatim>\<open>Math.random\<close>, read as the
  index it selects.
\<close>

record env =
  updatePlayer :: "effect list \<Rightarrow> string \<Rightarrow> playerOptions \<Rightarrow> bool"
  destroyPlayer :: "effect list \<Rightarrow> string \<Rightarrow> bool"
  loadTrack :: "effect list \<Rightarrow> string \<Rightarrow> string \<Rightarrow> Response option"
  track_resolve :: "effect list \<Rightarrow> Track \<Rightarrow> Track option"
  connectionUpdate :: "effect list \<Rightarrow> handshake"
  playerManager_delete :: "effect list \<Rightarrow> string \<Rightarrow> bool"
  queue_cleanUp :: "Queue \<Rightarrow> Queue"
  queue_add :: "Queue \<Rightarrow> Track option \<Rightarrow> Queue"
  customAutoplay :: "(Player \<Rightarrow> (bool option) \<times> Player) option"
  random :: "effect list \<Rightarrow> nat"

subsection \<open>Construction\<close>

text \<open>The constructor, with \<^verbatim>\<open>options.voiceId\<close>, \<^verbatim>\<open>options.guildId\<close> and the shard id.\<close>

definition new_Player :: "string \<Rightarrow> string \<Rightarrow> string \<Rightarrow> Player" where
  "new_Player voiceId gid sid =
     \<lparr> voiceChannelId = voiceId, guildId = gid, shardId = sid,
       isConnected = False, isPlaying = False, isPaused = False,
       state = DESTROYED, voiceState = VOICE_DISCONNECTED,
       loop = NONE, isAutoplay = False,
       ping = - 1, timestamp = 0, position = 0,
       queue = \<lparr> items = [], currentTrack = None, previousTrack = None \<rparr>,
       selfDeaf = False, selfMute = False,
       trace = [Emit ''playerCreate''] \<rparr>"

subsection \<open>Effects on the collaborators\<close>

definition emit :: "string \<Rightarrow> Player \<Rightarrow> Player" where
  "emit ev p = p\<lparr>trace := trace p @ [Emit ev]\<rparr>"

definition sendToDiscord :: "voicePacket \<Rightarrow> Player \<Rightarrow> Player" where
  "sendToDiscord d p = p\<lparr>trace := trace p @ [SendPacket (shardId p) d]\<rparr>"

definition sendVoiceUpdate :: "Player \<Rightarrow> Player" where
  "sendVoiceUpdate p =
     sendToDiscord \<lparr> guild_id = guildId p, channel_id = Some (voiceChannelId p),
                     self_deaf = selfDeaf p, self_mute = selfMute p \<rparr> p"

text \<open>\<^verbatim>\<open>await this.node.rest.updatePlayer({guildId, playerOptions})\<close>\<close>

definition rest_updatePlayer :: "env \<Rightarrow> playerOptions \<Rightarrow> Player \<Rightarrow> unit result" where
  "rest_updatePlayer e opts p =
     (let p' = p\<lparr>trace := trace p @ [RestUpdatePlayer (guildId p) opts]\<rparr>
      in if updatePlayer e (trace p) (guildId p) opts then (Inr (), p') else (Inl RestError, p'))"

text \<open>\<^verbatim>\<open>await this.node.rest.destroyPlayer(this.guildId)\<close>\<close>

definition rest_destroyPlayer :: "env \<Rightarrow> Player \<Rightarrow> unit result" where
  "rest_destroyPlayer e p =
     (let p' = p\<lparr>trace := trace p @ [RestDestroyPlayer (guildId p)]\<rparr>
      in if destroyPlayer e (trace p) (guildId p) then (Inr (), p') else (Inl RestError, p'))"

subsection \<open>Player commands\<close>

text \<open>JavaScript truthiness of an optional string: \<^verbatim>\<open>undefined\<close> and \<^verbatim>\<open>""\<close> are falsy.\<close>

definition truthy :: "string option \<Rightarrow> bool" where
  "truthy s = (case s of None \<Rightarrow> False | Some v \<Rightarrow> v \<noteq> [])"

text \<open>
  \<^verbatim>\<open>setLoop(mode?)\<close>. The loop modes are the strings \<^verbatim>\<open>"NONE"\<close>, \<^verbatim>\<open>"TRACK"\<close>,
  \<^verbatim>\<open>"QUEUE"\<close> and the members of \<^verbatim>\<open>PlayerLoop\<close>, which the switch treats alike; an
  explicit mode is a non-empty string and so truthy. \<open>None\<close> is the call with no argument.
\<close>

definition setLoop :: "PlayerLoop option \<Rightarrow> Player \<Rightarrow> Player" where
  "setLoop mode p =
     (case mode of
        Some m \<Rightarrow> p\<lparr>loop := m\<rparr>
      | None \<Rightarrow>
          (case loop p of
             NONE \<Rightarrow> p\<lparr>loop := TRACK\<rparr>
           | TRACK \<Rightarrow> p\<lparr>loop := QUEUE\<rparr>
           | QUEUE \<Rightarrow> p\<lparr>loop := NONE\<rparr>))"

text \<open>
  \<^verbatim>\<open>setAutoplay(toggle?)\<close>: \<^verbatim>\<open>if (toggle) this.isAutoplay = toggle; else
  this.isAutoplay = !this.isAutoplay\<close>. The test is on the truthiness of \<^verbatim>\<open>toggle\<close>, so
  \<^verbatim>\<open>false\<close> and \<^verbatim>\<open>undefined\<close> (here \<open>Some False\<close> and \<open>None\<close>) take the same branch.
\<close>

definition setAutoplay :: "bool option \<Rightarrow> Player \<Rightarrow> Player" where
  "setAutoplay toggle p =
     (if toggle = Some True then p\<lparr>isAutoplay := True\<rparr>
      else p\<lparr>isAutoplay := \<not> isAutoplay p\<rparr>)"

text \<open>\<^verbatim>\<open>play()\<close>\<close>

definition play :: "env \<Rightarrow> Player \<Rightarrow> unit result" where
  "play e p =
     (case items (queue p) of
        [] \<Rightarrow> (Inr (), p)
      | t # rest \<Rightarrow>
          let p1 = p\<lparr>queue := (queue p)\<lparr>items := rest, currentTrack := Some t\<rparr>\<rparr>
          in (case (if \<not> truthy (track t) then track_resolve e (trace p1) t else Some t) of
                None \<Rightarrow> (Inl ResolveError, p1)
              | Some t' \<Rightarrow>
                  let p2 = p1\<lparr>queue := (queue p1)\<lparr>currentTrack := Some t'\<rparr>\<rparr>
                  in (case rest_updatePlayer e (TrackEncoded (track t')) p2 of
                        (Inl err, p3) \<Rightarrow> (Inl err, p3)
                      | (Inr _, p3) \<Rightarrow>
                          (Inr (), p3\<lparr>isPlaying := True, position := 0, isPaused := False\<rparr>))))"

text \<open>\<^verbatim>\<open>skip()\<close>: the flags are set before the REST call.\<close>

definition skip :: "env \<Rightarrow> Player \<Rightarrow> unit result" where
  "skip e p =
     (if items (queue p) = [] then (Inr (), p)
      else rest_updatePlayer e (TrackEncoded None)
             (p\<lparr>position := 0, isPlaying := False, isPaused := True\<rparr>))"

text \<open>\<^verbatim>\<open>pause(toggle = true)\<close>: the flags are set after the REST call.\<close>

definition pause :: "env \<Rightarrow> bool \<Rightarrow> Player \<Rightarrow> unit result" where
  "pause e toggle p =
     (case rest_updatePlayer e (Paused toggle) p of
        (Inl err, p1) \<Rightarrow> (Inl err, p1)
      | (Inr _, p1) \<Rightarrow> (Inr (), p1\<lparr>isPaused := toggle, isPlaying := \<not> toggle\<rparr>))"

text \<open>\<^verbatim>\<open>disconnect()\<close>\<close>

definition disconnect :: "env \<Rightarrow> Player \<Rightarrow> unit result" where
  "disconnect e p =
     (if voiceChannelId p = [] then (Inr (), p)
      else (case skip e (p\<lparr>queue := queue_cleanUp e (queue p)\<rparr>) of
              (Inl err, p1) \<Rightarrow> (Inl err, p1)
            | (Inr _, p1) \<Rightarrow>
                (Inr (),
                 sendToDiscord \<lparr> guild_id = guildId p1, channel_id = None,
                                 self_deaf = False, self_mute = False \<rparr>
                   (p1\<lparr>isConnected := False, state := DISCONNECTED,
                       voiceState := VOICE_DISCONNECTED\<rparr>))))"

text \<open>
  \<^verbatim>\<open>destroy()\<close>: the result is what \<^verbatim>\<open>this.manager.playerManager.delete(guildId)\<close>
  returns.
\<close>

definition destroy :: "env \<Rightarrow> Player \<Rightarrow> bool result" where
  "destroy e p =
     (case disconnect e p of
        (Inl err, p1) \<Rightarrow> (Inl err, p1)
      | (Inr _, p1) \<Rightarrow>
          (case rest_destroyPlayer e p1 of
             (Inl err, p2) \<Rightarrow> (Inl err, p2)
           | (Inr _, p2) \<Rightarrow>
               let p3 = emit ''playerDestroy'' p2
               in (Inr (playerManager_delete e (trace p3) (guildId p3)),
                   p3\<lparr>trace := trace p3 @ [RegistryDelete (guildId p3)]\<rparr>)))"

text \<open>\<^verbatim>\<open>checkDestroyed()\<close>: no method of the class calls it.\<close>

definition checkDestroyed :: "Player \<Rightarrow> unit result" where
  "checkDestroyed p =
     (if state p = DESTROYED then (Inl PlayerDestroyedError, p) else (Inr (), p))"

text \<open>
  \<^verbatim>\<open>connect()\<close>: two guards, then the voice update, then the wait for
  \<^verbatim>\<open>connectionUpdate\<close> inside \<^verbatim>\<open>try\<close>/\<^verbatim>\<open>catch\<close>/\<^verbatim>\<open>finally\<close>. The \<^verbatim>\<open>finally\<close>
  block runs on every way out of the \<^verbatim>\<open>try\<close>.
\<close>

definition connect_finally :: "Player \<Rightarrow> Player" where
  "connect_finally p = p\<lparr>state := CONNECTED\<rparr>"

definition connect :: "env \<Rightarrow> Player \<Rightarrow> unit result" where
  "connect e p =
     (if state p = CONNECTED \<or> voiceChannelId p = [] then (Inr (), p)
      else if voiceState p = VOICE_CONNECTING \<or> voiceState p = VOICE_CONNECTED then (Inr (), p)
      else
        let p1 = sendVoiceUpdate (p\<lparr>voiceState := VOICE_CONNECTING\<rparr>)
        in (case connectionUpdate e (trace p1) of
              Signal SESSION_ID_MISSING \<Rightarrow> (Inl SessionIdMissingError, connect_finally p1)
            | Signal SESSION_ENDPOINT_MISSING \<Rightarrow>
                (Inl SessionEndpointMissingError, connect_finally p1)
            | Signal _ \<Rightarrow> (Inr (), connect_finally (p1\<lparr>voiceState := VOICE_CONNECTED\<rparr>))
            | Aborted \<Rightarrow> (Inl VoiceTimeoutError, connect_finally p1)
            | Rejected \<Rightarrow> (Inl ConnectionUpdateError, connect_finally p1)))"

subsection \<open>Autoplay\<close>

text \<open>
  \<^verbatim>\<open>resolve({query, source, requester})\<close> on the player's own node:
  \<^verbatim>\<open>node.rest.loadTrack(query, source)\<close>, wrapped in a \<^verbatim>\<open>Response\<close>.
\<close>

definition resolve :: "env \<Rightarrow> string \<Rightarrow> string \<Rightarrow> Player \<Rightarrow> Response option \<times> Player" where
  "resolve e query source p =
     (loadTrack e (trace p) query source, p\<lparr>trace := trace p @ [RestLoadTrack query source]\<rparr>)"

text \<open>
  \<^verbatim>\<open>tracks[Math.floor(Math.random() * Math.floor(tracks.length))]\<close>: an index below the
  length, and \<^verbatim>\<open>undefined\<close> (here \<open>None\<close>) on the empty array.
\<close>

definition pick :: "env \<Rightarrow> effect list \<Rightarrow> Track list \<Rightarrow> Track option" where
  "pick e tr ts = (if ts = [] then None else Some (ts ! (random e tr mod length ts)))"

text \<open>The body of the \<^verbatim>\<open>try\<close> block of \<^verbatim>\<open>autoplay(previousTrack = null)\<close>.\<close>

definition autoplay_try :: "env \<Rightarrow> Track option \<Rightarrow> Player \<Rightarrow> unit result" where
  "autoplay_try e previous p =
     (case (case customAutoplay e of None \<Rightarrow> (Some False, p) | Some f \<Rightarrow> f p) of
        (None, p1) \<Rightarrow> (Inl AutoplayError, p1)
      | (Some True, p1) \<Rightarrow> (Inr (), p1)
      | (Some False, p1) \<Rightarrow>
          (case (case previous of Some t \<Rightarrow> Some t | None \<Rightarrow> previousTrack (queue p1)) of
             None \<Rightarrow> (Inr (), p1)
           | Some prevTrack \<Rightarrow>
               if info_sourceName prevTrack = ''soundcloud'' then
                 (case resolve e (info_title prevTrack) ''scsearch'' p1 of
                    (None, p2) \<Rightarrow> (Inl RestError, p2)
                  | (Some r, p2) \<Rightarrow>
                      if tracks r = [] \<or> loadType r = ''error'' \<or> loadType r = ''empty''
                      then skip e p2
                      else play e (p2\<lparr>queue :=
                             queue_add e (queue p2) (pick e (trace p2) (tracks r))\<rparr>))
               else
                 let ident =
                       (if info_identifier prevTrack \<noteq> [] then info_identifier prevTrack
                        else (case currentTrack (queue p1) of
                                None \<Rightarrow> ''undefined''
                              | Some c \<Rightarrow> info_identifier c));
                     searchedURL =
                       ''https://www.youtube.com/watch?v='' @ ident @ ''&list=RD'' @ ident
                 in (case resolve e searchedURL ''ytmsearch'' p1 of
                       (None, p2) \<Rightarrow> (Inl RestError, p2)
                     | (Some r, p2) \<Rightarrow>
                         if tracks r = [] \<or> loadType r = ''error'' \<or> loadType r = ''empty''
                         then skip e p2
                         else play e (p2\<lparr>queue :=
                                queue_add e (queue p2) (pick e (trace p2) (tl (tracks r)))\<rparr>))))"

text \<open>\<^verbatim>\<open>autoplay\<close>: whatever the \<^verbatim>\<open>try\<close> block throws is caught and answered by \<^verbatim>\<open>skip()\<close>.\<close>

definition autoplay :: "env \<Rightarrow> Track option \<Rightarrow> Player \<Rightarrow> unit result" where
  "autoplay e previous p =
     (case autoplay_try e previous p of
        (Inl err, p1) \<Rightarrow> skip e p1
      | (Inr u, p1) \<Rightarrow> (Inr u, p1))"

subsection \<open>Node events\<close>

text \<open>
  The event packets by their \<^verbatim>\<open>type\<close>, with the fields the handler reads:
  \<^verbatim>\<open>data.reason\<close> of a track end and \<^verbatim>\<open>data.code\<close> of a socket close. The handler never
  reads which track an event names; it works on \<^verbatim>\<open>queue.currentTrack\<close>.
\<close>

datatype EventData =
    TrackStartEvent
  | TrackEndEvent string
  | TrackStuckEvent
  | TrackExceptionEvent
  | WebSocketClosedEvent int

text \<open>The first lines of the \<^verbatim>\<open>TrackEndEvent\<close> case, up to the test of the reason.\<close>

definition trackEnd_archive :: "Player \<Rightarrow> Player" where
  "trackEnd_archive p =
     (let p1 = p\<lparr>isPlaying := False, isPaused := True\<rparr>;
          q = queue p1;
          q1 = (case currentTrack q of Some c \<Rightarrow> q\<lparr>previousTrack := Some c\<rparr> | None \<Rightarrow> q)
      in p1\<lparr>queue := q1\<lparr>currentTrack := None\<rparr>\<rparr>)"

text \<open>\<^verbatim>\<open>_eventHandler(data)\<close>\<close>

definition eventHandler :: "env \<Rightarrow> EventData \<Rightarrow> Player \<Rightarrow> unit result" where
  "eventHandler e data p =
     (case data of
        TrackStartEvent \<Rightarrow>
          (Inr (), emit ''trackStart'' (p\<lparr>isPlaying := True, isPaused := False, position := 0\<rparr>))
      | TrackEndEvent reason \<Rightarrow>
          let p2 = trackEnd_archive p
          in if reason = ''replaced'' then (Inr (), emit ''trackEnd'' p2)
             else if reason = ''loadFailed'' \<or> reason = ''cleanup'' then
               (if items (queue p2) = [] then (Inr (), emit ''queueEmpty'' p2)
                else play e (emit ''trackEnd'' p2))
             else
               (case loop p2 of
                  TRACK \<Rightarrow>
                    (case previousTrack (queue p2) of
                       None \<Rightarrow> (Inr (), emit ''queueEmpty'' p2)
                     | Some prev \<Rightarrow>
                         let p3 = emit ''trackEnd'' p2
                         in play e (p3\<lparr>queue := (queue p3)\<lparr>items := prev # items (queue p3)\<rparr>\<rparr>))
                | QUEUE \<Rightarrow>
                    (case previousTrack (queue p2) of
                       None \<Rightarrow> (Inr (), emit ''queueEmpty'' p2)
                     | Some prev \<Rightarrow>
                         let p3 = emit ''trackEnd'' p2
                         in play e (p3\<lparr>queue := (queue p3)\<lparr>items := items (queue p3) @ [prev]\<rparr>\<rparr>))
                | NONE \<Rightarrow>
                    if isAutoplay p2 then autoplay e None p2
                    else if items (queue p2) = [] then (Inr (), emit ''queueEmpty'' p2)
                    else play e (emit ''trackEnd'' p2))
      | TrackStuckEvent \<Rightarrow> skip e (emit ''trackError'' p)
      | TrackExceptionEvent \<Rightarrow> skip e (emit ''trackError'' p)
      | WebSocketClosedEvent code \<Rightarrow>
          pause e True
            (emit ''socketClose''
               (if code = 4015 \<or> code = 4009 \<or> code = 4006 then sendVoiceUpdate p else p)))"

subsection \<open>Sequences of commands\<close>

text \<open>
  A caller issuing \<^verbatim>\<open>play()\<close>, \<^verbatim>\<open>skip()\<close> and \<^verbatim>\<open>pause(toggle)\<close> one after the other,
  each call against its own environment. A call that rejects leaves the state it reached,
  and the caller goes on.
\<close>

datatype command = Play | Skip | Pause bool

definition run_command :: "env \<Rightarrow> command \<Rightarrow> Player \<Rightarrow> unit result" where
  "run_command e c p = (case c of Play \<Rightarrow> play e p | Skip \<Rightarrow> skip e p | Pause t \<Rightarrow> pause e t p)"

fun run_commands :: "(env \<times> command) list \<Rightarrow> Player \<Rightarrow> Player" where
  "run_commands [] p = p"
| "run_commands ((e, c) # cs) p = run_commands cs (snd (run_command e c p))"

section \<open>The LavalinkV4 node driver\<close>

text \<open>
  The driver's fields. \<^verbatim>\<open>manager\<close> is only tested for presence, so it is a unit. The
  socket is a \<^verbatim>\<open>WebSocket\<close> of the \<^verbatim>\<open>ws\<close> package, with the URL it was opened on and
  its ready state. The calls the driver makes on the socket and the events it emits on the
  manager are appended to \<open>effects\<close>; events the socket raises on its own listeners are
  not recorded.
\<close>

type_synonym HarmonyLink = unit

datatype ReadyState = WS_CONNECTING | WS_OPEN | WS_CLOSING | WS_CLOSED

record WebSocket =
  ws_url :: string
  readyState :: ReadyState

record Node =
  node_name :: string
  node_password :: string

datatype driver_effect = WsClose nat string | WsRemoveAllListeners | ManagerEmit string

datatype driver_error =
  NotRegistered | SessionIdNotSet | FetchRejected | TypeError | RangeError | JsonError

record LavalinkV4 =
  clientId :: string
  wsUrl :: string
  httpUrl :: string
  manager :: "HarmonyLink option"
  node :: "Node option"
  sessionId :: "string option"
  wsClient :: "WebSocket option"
  effects :: "driver_effect list"

definition isRegistered :: "LavalinkV4 \<Rightarrow> bool" where
  "isRegistered d = (manager d \<noteq> None \<and> node d \<noteq> None \<and> wsUrl d \<noteq> [] \<and> httpUrl d \<noteq> [])"

text \<open>
  \<^verbatim>\<open>WebSocket.close(code, data)\<close> of the \<^verbatim>\<open>ws\<close> package, which the driver calls. A
  status code a close frame may carry (\<^verbatim>\<open>isValidStatusCode\<close>) is one of 1000 to 1014
  other than 1004, 1005 and 1006, or one of 3000 to 4999.
\<close>

definition isValidStatusCode :: "nat \<Rightarrow> bool" where
  "isValidStatusCode code =
     ((1000 \<le> code \<and> code \<le> 1014 \<and> code \<noteq> 1004 \<and> code \<noteq> 1005 \<and> code \<noteq> 1006)
      \<or> (3000 \<le> code \<and> code \<le> 4999))"

text \<open>
  On a closed or closing socket \<^verbatim>\<open>close\<close> returns at once; on a connecting socket it
  aborts the handshake, which leaves the socket closing; on an open socket it sets the
  ready state to closing and then builds the close frame, which throws a \<^verbatim>\<open>TypeError\<close>
  on a status code that is not valid and a \<^verbatim>\<open>RangeError\<close> on a reason longer than 123
  bytes. The result is the error thrown, if any, with the socket as the call left it.
\<close>

definition ws_close :: "nat \<Rightarrow> string \<Rightarrow> WebSocket \<Rightarrow> driver_error option \<times> WebSocket" where
  "ws_close code data ws =
     (case readyState ws of
        WS_CLOSED \<Rightarrow> (None, ws)
      | WS_CONNECTING \<Rightarrow> (None, ws\<lparr>readyState := WS_CLOSING\<rparr>)
      | WS_CLOSING \<Rightarrow> (None, ws)
      | WS_OPEN \<Rightarrow>
          (if \<not> isValidStatusCode code then Some TypeError
           else if 123 < length data then Some RangeError
           else None,
           ws\<lparr>readyState := WS_CLOSING\<rparr>))"

text \<open>
  \<^verbatim>\<open>wsClose(withoutEmit = false)\<close>. The calls \<^verbatim>\<open>this.wsClient?.close\<close>,
  \<^verbatim>\<open>this.manager?.emit\<close> and \<^verbatim>\<open>this.wsClient?.removeAllListeners\<close> happen only where
  the receiver is set. When \<^verbatim>\<open>close\<close> throws, \<^verbatim>\<open>wsClose\<close> throws with it: nothing is
  emitted, the listeners stay and \<^verbatim>\<open>wsClient\<close> keeps the socket.
\<close>

definition wsClose_teardown :: "LavalinkV4 \<Rightarrow> LavalinkV4" where
  "wsClose_teardown d =
     d\<lparr>effects := effects d
          @ (case wsClient d of None \<Rightarrow> [] | Some ws \<Rightarrow> [WsRemoveAllListeners]),
       wsClient := None\<rparr>"

definition wsClose :: "bool \<Rightarrow> LavalinkV4 \<Rightarrow> (driver_error + unit) \<times> LavalinkV4" where
  "wsClose withoutEmit d =
     (if withoutEmit then
        (case (case wsClient d of
                 None \<Rightarrow> (None, d)
               | Some ws \<Rightarrow>
                   (case ws_close 1006 ''Self Closed'' ws of
                      (thrown, ws') \<Rightarrow>
                        (thrown, d\<lparr>wsClient := Some ws',
                                    effects := effects d @ [WsClose 1006 ''Self Closed'']\<rparr>))) of
           (Some err, d1) \<Rightarrow> (Inl err, d1)
         | (None, d1) \<Rightarrow>
             (Inr (),
              wsClose_teardown
                (d1\<lparr>effects := effects d1
                       @ (case manager d1 of
                            None \<Rightarrow> []
                          | Some m \<Rightarrow> [ManagerEmit ''nodeDisconnect''])\<rparr>)))
      else (Inr (), wsClose_teardown d))"

subsection \<open>REST requests\<close>

text \<open>
  An entry of a decode request is an encoded track, or \<^verbatim>\<open>null\<close>/\<^verbatim>\<open>undefined\<close> (\<open>None\<close>):
  a JSON array may hold \<^verbatim>\<open>null\<close>, and \<^verbatim>\<open>params.encodedTrack\<close> may be missing. A request
  body is a batch of entries, or any other JSON value (kept as its text).
\<close>

type_synonym entry = "string option"

datatype body = Batch "entry list" | Other string

record RequesterOptions =
  path :: string
  http_method :: string
  body :: "body option"
  params :: "(string \<times> string) list option"
  headers :: "(string \<times> string) list"

record fetch_call =
  url :: string
  search :: "(string \<times> string) list"
  fetch_method :: string
  fetch_headers :: "(string \<times> string) list"
  fetch_body :: "body option"

text \<open>
  A response: \<open>json\<close> is what \<^verbatim>\<open>res.json()\<close> resolves with (\<open>None\<close> when it rejects),
  \<open>body_text\<close> what \<^verbatim>\<open>res.text()\<close> resolves with.
\<close>

record 'p response =
  status :: nat
  content_type :: "string option"
  json :: "'p option"
  body_text :: string

datatype ('d, 'p) reply = Undefined | JsonReply 'p | TextReply string | Decoded "'d list"

text \<open>\<^verbatim>\<open>String.prototype.includes\<close> and \<^verbatim>\<open>String.prototype.startsWith\<close>\<close>

fun includes_str :: "string \<Rightarrow> string \<Rightarrow> bool" where
  "includes_str [] sub = (sub = [])"
| "includes_str (c # cs) sub = (take (length sub) (c # cs) = sub \<or> includes_str cs sub)"

definition startsWith :: "string \<Rightarrow> string \<Rightarrow> bool" where
  "startsWith s pre = (take (length pre) s = pre)"

text \<open>The getter \<^verbatim>\<open>defaultHeaders\<close> of \<^verbatim>\<open>AbstractNodeDriver\<close>, for the type \<^verbatim>\<open>LavaLinkV4\<close>.\<close>

definition defaultHeaders :: "LavalinkV4 \<Rightarrow> (string \<times> string) list" where
  "defaultHeaders d =
     [(''Authorization'', (case node d of None \<Rightarrow> [] | Some n \<Rightarrow> node_password n)),
      (''User-Agent'', clientId d),
      (''Content-Type'', ''application/json'')]"

text \<open>
  \<^verbatim>\<open>content-type === "application/json" ? await res.json() : await res.text()\<close>
\<close>

definition read_content :: "'p response \<Rightarrow> driver_error + ('d, 'p) reply" where
  "read_content res =
     (if content_type res = Some ''application/json''
      then (case json res of None \<Rightarrow> Inl JsonError | Some v \<Rightarrow> Inr (JsonReply v))
      else Inr (TextReply (body_text res)))"

text \<open>
  The local pass of a decode request: every entry goes through the decoder; a decoded track
  is pushed on \<^verbatim>\<open>data\<close>, an entry the decoder returns \<^verbatim>\<open>null\<close> for on
  \<^verbatim>\<open>failedTracks\<close>. The result is the two arrays.
\<close>

fun decode_local :: "(entry \<Rightarrow> 'd option) \<Rightarrow> entry list \<Rightarrow> 'd list \<times> entry list" where
  "decode_local decoder [] = ([], [])"
| "decode_local decoder (t # ts) =
     (let (data, failedTracks) = decode_local decoder ts
      in (case decoder t of
            Some trackData \<Rightarrow> (trackData # data, failedTracks)
          | None \<Rightarrow> (data, t # failedTracks)))"

text \<open>
  \<^verbatim>\<open>request(options)\<close>, with the decoder and \<^verbatim>\<open>globalThis.fetch\<close> as parameters
  (\<open>fetch c = None\<close>: the fetch rejects). The result comes with the list of fetch calls
  made.
\<close>

definition request ::
  "(entry \<Rightarrow> 'd option) \<Rightarrow> (fetch_call \<Rightarrow> 'p response option) \<Rightarrow> LavalinkV4 \<Rightarrow> RequesterOptions
     \<Rightarrow> (driver_error + ('d, 'p) reply) \<times> fetch_call list" where
  "request decoder fetch d options =
     (if \<not> isRegistered d then (Inl NotRegistered, [])
      else if includes_str (path options) ''/sessions'' \<and> sessionId d = None
        then (Inl SessionIdNotSet, [])
      else if startsWith (path options) ''/version'' then
        (let c = \<lparr> url = httpUrl d @ path options, search = [], fetch_method = ''GET'',
                    fetch_headers = defaultHeaders d, fetch_body = None \<rparr>
         in (case fetch c of
               None \<Rightarrow> (Inl FetchRejected, [c])
             | Some res \<Rightarrow> (read_content res, [c])))
      else
        let hs = AList.merge (defaultHeaders d) (headers options)
        in if path options = ''/decodetrack'' \<or> path options = ''/decodetracks'' then
             (case (case body options of
                      Some (Batch ts) \<Rightarrow> Inr (decode_local decoder ts)
                    | Some (Other v) \<Rightarrow> Inl TypeError
                    | None \<Rightarrow>
                        (case params options of
                           None \<Rightarrow> Inl TypeError
                         | Some ps \<Rightarrow> Inr (decode_local decoder [map_of ps ''encodedTrack'']))) of
                Inl err \<Rightarrow> (Inl err, [])
              | Inr (data, failedTracks) \<Rightarrow>
                  if length failedTracks > 0 then
                    (let c = \<lparr> url = httpUrl d @ ''/v4/decodetracks'', search = [],
                                fetch_method = ''POST'', fetch_headers = hs,
                                fetch_body = Some (Batch failedTracks) \<rparr>
                     in (case fetch c of
                           None \<Rightarrow> (Inl FetchRejected, [c])
                         | Some res \<Rightarrow>
                             (case json res of
                                None \<Rightarrow> (Inl JsonError, [c])
                              | Some v \<Rightarrow> (Inr (JsonReply v), [c]))))
                  else (Inr (Decoded data), []))
           else
             (let c = \<lparr> url = httpUrl d @ ''/v4'' @ path options,
                         search = (case params options of None \<Rightarrow> [] | Some ps \<Rightarrow> ps),
                         fetch_method = http_method options, fetch_headers = hs,
                         fetch_body = body options \<rparr>
              in (case fetch c of
                    None \<Rightarrow> (Inl FetchRejected, [c])
                  | Some res \<Rightarrow>
                      if status res = 204 then (Inr Undefined, [c])
                      else if status res = 200 then (read_content res, [c])
                      else (Inr Undefined, [c]))))"

section \<open>Concrete players, environments and drivers\<close>

text \<open>
  The inputs at which the theorems below are evaluated. In \<open>env_ok\<close> every REST call
  resolves and the voice handshake answers \<^verbatim>\<open>SESSION_READY\<close>; \<open>env_timeout\<close> differs in
  the handshake, which is aborted by the timeout.
\<close>

definition env_ok :: env where
  "env_ok =
     \<lparr> updatePlayer = (\<lambda>tr g opts. True),
       destroyPlayer = (\<lambda>tr g. True),
       loadTrack = (\<lambda>tr query source. None),
       track_resolve = (\<lambda>tr t. Some t),
       connectionUpdate = (\<lambda>tr. Signal SESSION_READY),
       playerManager_delete = (\<lambda>tr g. True),
       queue_cleanUp = (\<lambda>q. \<lparr> items = [], currentTrack = None, previousTrack = None \<rparr>),
       queue_add = (\<lambda>q t. case t of None \<Rightarrow> q | Some x \<Rightarrow> q\<lparr>items := items q @ [x]\<rparr>),
       customAutoplay = None,
       random = (\<lambda>tr. 0) \<rparr>"

definition env_timeout :: env where
  "env_timeout = env_ok\<lparr>connectionUpdate := (\<lambda>tr. Aborted)\<rparr>"

definition track_A :: Track where
  "track_A = \<lparr> track = Some ''QAAAAA'', info_title = ''A'', info_sourceName = ''youtube'',
               info_identifier = ''idA'', info_requester = ''user'' \<rparr>"

definition track_B :: Track where
  "track_B = \<lparr> track = Some ''QBBBBB'', info_title = ''B'', info_sourceName = ''youtube'',
               info_identifier = ''idB'', info_requester = ''user'' \<rparr>"

text \<open>A player just constructed: state \<^verbatim>\<open>DESTROYED\<close>, empty queue, no autoplay, no loop.\<close>

definition player_fresh :: Player where
  "player_fresh = new_Player ''voice-1'' ''guild-1'' ''0''"

text \<open>A player looping on the track, with \<open>[A, B]\<close> pending while \<open>A\<close> is current.\<close>

definition player_looping :: Player where
  "player_looping =
     player_fresh\<lparr>loop := TRACK, isPlaying := True,
       queue := \<lparr> items = [track_A, track_B], currentTrack = Some track_A,
                  previousTrack = None \<rparr>\<rparr>"

text \<open>
  The same player after \<^verbatim>\<open>play()\<close> on a queue \<open>[A, B]\<close>: \<open>A\<close> is current and
  \<open>[B]\<close> is pending.
\<close>

definition player_playing_A :: Player where
  "player_playing_A =
     player_fresh\<lparr>loop := TRACK, isPlaying := True,
       queue := \<lparr> items = [track_B], currentTrack = Some track_A, previousTrack = None \<rparr>\<rparr>"

text \<open>
  A registered driver with an open socket, and the same driver once the socket has closed.
\<close>

definition driver_open :: LavalinkV4 where
  "driver_open =
     \<lparr> clientId = ''HarmonyLink'', wsUrl = ''ws://localhost:2333'',
       httpUrl = ''http://localhost:2333'', manager = Some (),
       node = Some \<lparr> node_name = ''main'', node_password = ''youshallnotpass'' \<rparr>,
       sessionId = Some ''session-1'',
       wsClient = Some \<lparr> ws_url = ''ws://localhost:2333/v4/websocket'',
                          readyState = WS_OPEN \<rparr>,
       effects = [] \<rparr>"

definition driver_closed :: LavalinkV4 where
  "driver_closed =
     driver_open\<lparr>wsClient := Some \<lparr> ws_url = ''ws://localhost:2333/v4/websocket'',
                                     readyState = WS_CLOSED \<rparr>\<rparr>"

text \<open>
  A decoder that resolves the entries starting with \<^verbatim>\<open>Q\<close> (to their own text), and a
  remote node that answers a decode call with one track per entry it was sent.
\<close>

definition decoder_Q :: "entry \<Rightarrow> string option" where
  "decoder_Q t = (case t of Some (c # cs) \<Rightarrow> (if c = CHR ''Q'' then Some (c # cs) else None)
                  | _ \<Rightarrow> None)"

definition fetch_remote :: "fetch_call \<Rightarrow> string list response option" where
  "fetch_remote c =
     Some \<lparr> status = 200, content_type = Some ''application/json'',
            json = Some (case fetch_body c of
                           Some (Batch ts) \<Rightarrow> map (\<lambda>t. ''decoded remotely'') ts
                         | _ \<Rightarrow> []),
            body_text = [] \<rparr>"

definition decode_batch :: RequesterOptions where
  "decode_batch =
     \<lparr> path = ''/decodetracks'', http_method = ''POST'',
       body = Some (Batch [Some ''QAAAAA'', Some ''malformed'', Some ''QBBBBB'']),
       params = None, headers = [] \<rparr>"

text \<open>The REST calls of a trace.\<close>

fun is_rest :: "effect \<Rightarrow> bool" where
  "is_rest (RestUpdatePlayer g opts) = True"
| "is_rest (RestDestroyPlayer g) = True"
| "is_rest (RestLoadTrack query source) = True"
| "is_rest (Emit ev) = False"
| "is_rest (SendPacket sid d) = False"
| "is_rest (RegistryDelete g) = False"

definition rest_calls :: "effect list \<Rightarrow> effect list" where
  "rest_calls tr = filter is_rest tr"

section \<open>Properties of the Player\<close>

subsection \<open>The playback flags\<close>

lemma play_flags:
  "\<not> (isPlaying p \<and> isPaused p) \<Longrightarrow>
   \<not> (isPlaying (snd (play e p)) \<and> isPaused (snd (play e p)))"
  by (auto simp: play_def rest_updatePlayer_def Let_def
           split: list.splits option.splits prod.splits sum.splits if_splits)

lemma skip_flags:
  "\<not> (isPlaying p \<and> isPaused p) \<Longrightarrow>
   \<not> (isPlaying (snd (skip e p)) \<and> isPaused (snd (skip e p)))"
  by (auto simp: skip_def rest_updatePlayer_def Let_def)

lemma pause_flags:
  "\<not> (isPlaying p \<and> isPaused p) \<Longrightarrow>
   \<not> (isPlaying (snd (pause e t p)) \<and> isPaused (snd (pause e t p)))"
  by (auto simp: pause_def rest_updatePlayer_def Let_def
           split: prod.splits sum.splits if_splits)

lemma run_command_flags:
  "\<not> (isPlaying p \<and> isPaused p) \<Longrightarrow>
   \<not> (isPlaying (snd (run_command e c p)) \<and> isPaused (snd (run_command e c p)))"
  by (cases c) (simp_all add: run_command_def play_flags skip_flags pause_flags)

lemma run_commands_flags:
  "\<not> (isPlaying p \<and> isPaused p) \<Longrightarrow>
   \<not> (isPlaying (run_commands cs p) \<and> isPaused (run_commands cs p))"
proof (induction cs arbitrary: p)
  case Nil
  then show ?case by simp
next
  case (Cons ec cs)
  obtain e c where ec: "ec = (e, c)" by (cases ec)
  from Cons.prems
  have "\<not> (isPlaying (snd (run_command e c p)) \<and> isPaused (snd (run_command e c p)))"
    by (rule run_command_flags)
  then show ?case
    unfolding ec run_commands.simps by (rule Cons.IH)
qed

text \<open>
  C1: take a freshly constructed player, with any tracks in its queue, and any sequence of
  \<^verbatim>\<open>play()\<close>, \<^verbatim>\<open>skip()\<close> and \<^verbatim>\<open>pause(toggle)\<close> calls, whatever the node answers to
  each of them (a call may reject). After the sequence, and so after every call of it,
  \<^verbatim>\<open>isPlaying\<close> and \<^verbatim>\<open>isPaused\<close> are not both true.
\<close>

theorem play_skip_pause_flags_exclusive:
  "\<not> (isPlaying (run_commands cs ((new_Player voiceId gid sid)\<lparr>queue := q\<rparr>))
      \<and> isPaused (run_commands cs ((new_Player voiceId gid sid)\<lparr>queue := q\<rparr>)))"
  by (rule run_commands_flags) (simp add: new_Player_def)

text \<open>
  C10: when its REST call resolves, \<^verbatim>\<open>pause(toggle)\<close> resolves too and leaves
  \<^verbatim>\<open>isPaused = toggle\<close> and \<^verbatim>\<open>isPlaying = !toggle\<close>, whatever the queue and the
  current track are, which it does not touch. So \<^verbatim>\<open>pause(false)\<close> marks as playing a
  player whose queue is empty and that never started a track.
\<close>

theorem pause_sets_flags:
  assumes "updatePlayer e (trace p) (guildId p) (Paused toggle)"
  shows "fst (pause e toggle p) = Inr ()
         \<and> isPaused (snd (pause e toggle p)) = toggle
         \<and> isPlaying (snd (pause e toggle p)) = (\<not> toggle)
         \<and> queue (snd (pause e toggle p)) = queue p"
  using assms by (simp add: pause_def rest_updatePlayer_def Let_def)

theorem pause_sets_flags_witness:
  "items (queue player_fresh) = [] \<and> currentTrack (queue player_fresh) = None
   \<and> \<not> isPlaying player_fresh
   \<and> fst (pause env_ok False player_fresh) = Inr ()
   \<and> isPlaying (snd (pause env_ok False player_fresh))
   \<and> \<not> isPaused (snd (pause env_ok False player_fresh))
   \<and> items (queue (snd (pause env_ok False player_fresh))) = []"
proof -
  have ok: "updatePlayer env_ok (trace player_fresh) (guildId player_fresh) (Paused False)"
    by (simp add: env_ok_def)
  have fresh: "items (queue player_fresh) = [] \<and> currentTrack (queue player_fresh) = None
      \<and> \<not> isPlaying player_fresh"
    by (simp add: player_fresh_def new_Player_def)
  from pause_sets_flags [OF ok] fresh show ?thesis by simp
qed

subsection \<open>Connecting\<close>

text \<open>
  C4: a \<^verbatim>\<open>connect()\<close> that passes its two guards leaves the connection state
  \<^verbatim>\<open>CONNECTED\<close>, whatever the voice handshake answers: ready, session id missing,
  endpoint missing, any other status, the timeout, or another rejection.
\<close>

theorem connect_marks_connected:
  assumes "state p \<noteq> CONNECTED" and "voiceChannelId p \<noteq> []"
    and "voiceState p \<noteq> VOICE_CONNECTING" and "voiceState p \<noteq> VOICE_CONNECTED"
  shows "state (snd (connect e p)) = CONNECTED"
  using assms
  by (simp add: connect_def connect_finally_def Let_def
           split: handshake.splits DiscordVoiceStates.splits)

theorem connect_marks_connected_witness:
  "fst (connect env_timeout player_fresh) = Inl VoiceTimeoutError
   \<and> voiceState (snd (connect env_timeout player_fresh)) = VOICE_CONNECTING
   \<and> state (snd (connect env_timeout player_fresh)) = CONNECTED"
proof -
  have g: "state player_fresh \<noteq> CONNECTED" "voiceChannelId player_fresh \<noteq> []"
    "voiceState player_fresh \<noteq> VOICE_CONNECTING" "voiceState player_fresh \<noteq> VOICE_CONNECTED"
    by (simp_all add: player_fresh_def new_Player_def)
  have "fst (connect env_timeout player_fresh) = Inl VoiceTimeoutError
      \<and> voiceState (snd (connect env_timeout player_fresh)) = VOICE_CONNECTING"
    by (simp add: connect_def connect_finally_def Let_def env_timeout_def env_ok_def
          player_fresh_def new_Player_def sendVoiceUpdate_def sendToDiscord_def)
  with connect_marks_connected [OF g, of env_timeout] show ?thesis by simp
qed

subsection \<open>Loop mode and autoplay\<close>

lemma setLoop_thrice: "setLoop None (setLoop None (setLoop None p)) = p"
  by (cases p) (simp add: setLoop_def split: PlayerLoop.splits)

lemma setLoop_funpow_3k: "(setLoop None ^^ (3 * k)) p = p"
proof (induction k)
  case 0
  show ?case by simp
next
  case (Suc k)
  have "(setLoop None ^^ (3 * Suc k)) p = (setLoop None ^^ 3) ((setLoop None ^^ (3 * k)) p)"
    by (simp only: mult_Suc_right funpow_add o_apply)
  also have "\<dots> = (setLoop None ^^ 3) p"
    by (simp only: Suc.IH)
  also have "\<dots> = p"
    by (simp add: numeral_3_eq_3 setLoop_thrice)
  finally show ?case .
qed

lemma setLoop_funpow_mod: "(setLoop None ^^ n) p = (setLoop None ^^ (n mod 3)) p"
proof -
  have "n = n mod 3 + 3 * (n div 3)" by simp
  then have "(setLoop None ^^ n) p = (setLoop None ^^ (n mod 3 + 3 * (n div 3))) p"
    by simp
  also have "\<dots> = (setLoop None ^^ (n mod 3)) ((setLoop None ^^ (3 * (n div 3))) p)"
    by (simp only: funpow_add o_apply)
  finally show ?thesis
    by (simp only: setLoop_funpow_3k)
qed

lemma setLoop_step_neq: "loop (setLoop None p) \<noteq> loop p"
  by (simp add: setLoop_def split: PlayerLoop.splits)

lemma setLoop_two_neq: "loop (setLoop None (setLoop None p)) \<noteq> loop p"
  by (simp add: setLoop_def split: PlayerLoop.splits)

text \<open>
  C6: with no argument, \<^verbatim>\<open>setLoop()\<close> steps the mode along NONE, TRACK, QUEUE, NONE
  from every starting mode; three calls in a row give back the player as it was; and after
  \<open>n\<close> calls the mode is the starting one exactly when \<open>n\<close> is a multiple of three, so
  the period is three and no less.
\<close>

theorem setLoop_cycle:
  "loop (setLoop None p) = (case loop p of NONE \<Rightarrow> TRACK | TRACK \<Rightarrow> QUEUE | QUEUE \<Rightarrow> NONE)
   \<and> setLoop None (setLoop None (setLoop None p)) = p
   \<and> (loop ((setLoop None ^^ n) p) = loop p) = (3 dvd n)"
proof -
  have step:
    "loop (setLoop None p) = (case loop p of NONE \<Rightarrow> TRACK | TRACK \<Rightarrow> QUEUE | QUEUE \<Rightarrow> NONE)"
    by (simp add: setLoop_def split: PlayerLoop.splits)
  have "n mod 3 = 0 \<or> n mod 3 = 1 \<or> n mod 3 = 2" by arith
  then have period: "(loop ((setLoop None ^^ n) p) = loop p) = (3 dvd n)"
  proof (elim disjE)
    assume r: "n mod 3 = 0"
    then have "(setLoop None ^^ n) p = p"
      using setLoop_funpow_mod [of n p] by simp
    with r show ?thesis by (simp add: dvd_eq_mod_eq_0)
  next
    assume r: "n mod 3 = 1"
    then have "(setLoop None ^^ n) p = setLoop None p"
      using setLoop_funpow_mod [of n p] by simp
    with r show ?thesis by (simp add: dvd_eq_mod_eq_0 setLoop_step_neq)
  next
    assume r: "n mod 3 = 2"
    then have "(setLoop None ^^ n) p = setLoop None (setLoop None p)"
      using setLoop_funpow_mod [of n p] by (simp add: numeral_2_eq_2)
    with r show ?thesis by (simp add: dvd_eq_mod_eq_0 setLoop_two_neq)
  qed
  from step setLoop_thrice period show ?thesis by blast
qed

text \<open>
  C8: \<^verbatim>\<open>setAutoplay(false)\<close> does what \<^verbatim>\<open>setAutoplay()\<close> does: it inverts the flag
  instead of setting it to \<^verbatim>\<open>false\<close>. On a freshly constructed player, whose flag is
  \<^verbatim>\<open>false\<close>, it turns autoplay on.
\<close>

theorem setAutoplay_false_inverts:
  "setAutoplay (Some False) p = setAutoplay None p
   \<and> isAutoplay (setAutoplay (Some False) p) = (\<not> isAutoplay p)
   \<and> isAutoplay (new_Player voiceId gid sid) = False
   \<and> isAutoplay (setAutoplay (Some False) (new_Player voiceId gid sid)) = True"
  by (simp add: setAutoplay_def new_Player_def)

subsection \<open>Destroying\<close>

text \<open>
  C2, as the code has it: \<^verbatim>\<open>destroy()\<close> on a player whose state is \<^verbatim>\<open>DESTROYED\<close>
  (the state the constructor sets) is not rejected. It never reads the state and never
  fails with the player-destroyed error, which only \<^verbatim>\<open>checkDestroyed\<close> raises. It runs
  \<^verbatim>\<open>disconnect()\<close>: with a voice channel set, the queue is cleaned up, a REST
  update-player call with no track is made if tracks are still pending after that (with the
  position reset and the player marked paused), then the player is marked not connected,
  its state becomes \<^verbatim>\<open>DISCONNECTED\<close>, its voice state disconnected, and the voice-leave
  packet is sent; with no voice channel nothing of this happens and the state stays
  \<^verbatim>\<open>DESTROYED\<close>. Then it makes the REST destroy-player call for its guild, emits
  \<^verbatim>\<open>playerDestroy\<close>, calls the registry's delete for its guild and resolves with the
  boolean this call returns. It rejects only when one of its REST calls is rejected, and
  then nothing after that call happens. In every case it makes at least one REST call.
\<close>

theorem destroy_not_guarded:
  assumes "state p = DESTROYED"
  shows
    "(let g = guildId p;
          vc = (voiceChannelId p \<noteq> []);
          q' = queue_cleanUp e (queue p);
          skips = (vc \<and> items q' \<noteq> []);
          skip_call = RestUpdatePlayer g (TrackEncoded None);
          skip_rejected = (skips \<and> \<not> updatePlayer e (trace p) g (TrackEncoded None));
          disconnected = (vc \<and> \<not> skip_rejected);
          leave = SendPacket (shardId p)
                    \<lparr> guild_id = g, channel_id = None, self_deaf = False, self_mute = False \<rparr>;
          tr = trace p @ (if skips then [skip_call] else []) @ (if vc then [leave] else []);
          destroy_rejected = (\<not> skip_rejected \<and> \<not> destroyPlayer e tr g);
          p' = snd (destroy e p)
      in fst (destroy e p) \<noteq> Inl PlayerDestroyedError
         \<and> length (rest_calls (trace p)) < length (rest_calls (trace p'))
         \<and> fst (destroy e p) =
             (if skip_rejected \<or> destroy_rejected then Inl RestError
              else Inr (playerManager_delete e
                          (tr @ [RestDestroyPlayer g, Emit ''playerDestroy'']) g))
         \<and> trace p' =
             (if skip_rejected then trace p @ [skip_call]
              else if destroy_rejected then tr @ [RestDestroyPlayer g]
              else tr @ [RestDestroyPlayer g, Emit ''playerDestroy'', RegistryDelete g])
         \<and> state p' = (if disconnected then DISCONNECTED else DESTROYED)
         \<and> voiceState p' = (if disconnected then VOICE_DISCONNECTED else voiceState p)
         \<and> isConnected p' = (if disconnected then False else isConnected p)
         \<and> queue p' = (if vc then q' else queue p)
         \<and> isPlaying p' = (if skips then False else isPlaying p)
         \<and> isPaused p' = (if skips then True else isPaused p)
         \<and> position p' = (if skips then 0 else position p)
         \<and> guildId p' = g \<and> voiceChannelId p' = voiceChannelId p
         \<and> loop p' = loop p \<and> isAutoplay p' = isAutoplay p)"
  using assms
  by (simp add: destroy_def disconnect_def skip_def rest_updatePlayer_def
        rest_destroyPlayer_def sendToDiscord_def emit_def rest_calls_def Let_def
      split: prod.splits sum.splits)

theorem destroy_not_guarded_witness:
  "state player_fresh = DESTROYED
   \<and> fst (destroy env_ok player_fresh) = Inr True
   \<and> rest_calls (trace (snd (destroy env_ok player_fresh))) = [RestDestroyPlayer ''guild-1'']
   \<and> state (snd (destroy env_ok player_fresh)) = DISCONNECTED
   \<and> voiceState (snd (destroy env_ok player_fresh)) = VOICE_DISCONNECTED
   \<and> isConnected (snd (destroy env_ok player_fresh)) = False"
proof -
  have d: "state player_fresh = DESTROYED"
    by (simp add: player_fresh_def new_Player_def)
  from destroy_not_guarded [OF d, of env_ok] d show ?thesis
    by (simp add: Let_def env_ok_def player_fresh_def new_Player_def rest_calls_def)
qed

text \<open>
  C2 as stated fails on a player just constructed: its state is \<^verbatim>\<open>DESTROYED\<close>, yet
  \<^verbatim>\<open>destroy()\<close> resolves with \<^verbatim>\<open>true\<close>, moves the state to \<^verbatim>\<open>DISCONNECTED\<close>, sends
  the voice-leave packet, makes the REST destroy-player call, emits \<^verbatim>\<open>playerDestroy\<close>
  and removes the player from the registry.
\<close>

theorem destroy_on_destroyed_counterexample:
  "state player_fresh = DESTROYED
   \<and> fst (destroy env_ok player_fresh) = Inr True
   \<and> state (snd (destroy env_ok player_fresh)) = DISCONNECTED
   \<and> trace (snd (destroy env_ok player_fresh)) =
       trace player_fresh @
       [SendPacket ''0'' \<lparr> guild_id = ''guild-1'', channel_id = None,
                           self_deaf = False, self_mute = False \<rparr>,
        RestDestroyPlayer ''guild-1'', Emit ''playerDestroy'', RegistryDelete ''guild-1'']"
  by (simp add: destroy_def disconnect_def skip_def rest_updatePlayer_def
        rest_destroyPlayer_def sendToDiscord_def emit_def Let_def
        env_ok_def player_fresh_def new_Player_def)

subsection \<open>The end of a track\<close>

text \<open>
  C9, as the code has it: with an empty pending queue, autoplay off and loop mode NONE, the
  handler of a \<^verbatim>\<open>TrackEndEvent\<close> never throws, and it emits exactly one event: queue-empty
  for every reason but \<^verbatim>\<open>replaced\<close>, and track-end for the reason \<^verbatim>\<open>replaced\<close>.
\<close>

theorem trackEnd_empty_queue:
  assumes "items (queue p) = []" and "\<not> isAutoplay p" and "loop p = NONE"
  shows "fst (eventHandler e (TrackEndEvent reason) p) = Inr ()
         \<and> trace (snd (eventHandler e (TrackEndEvent reason) p)) =
             trace p @ [Emit (if reason = ''replaced'' then ''trackEnd'' else ''queueEmpty'')]"
  using assms
  by (simp add: eventHandler_def trackEnd_archive_def emit_def Let_def split: option.splits)

theorem trackEnd_empty_queue_witness:
  "fst (eventHandler env_ok (TrackEndEvent ''finished'') player_fresh) = Inr ()
   \<and> trace (snd (eventHandler env_ok (TrackEndEvent ''finished'') player_fresh)) =
       [Emit ''playerCreate'', Emit ''queueEmpty'']"
proof -
  have h: "items (queue player_fresh) = []" "\<not> isAutoplay player_fresh"
    "loop player_fresh = NONE"
    by (simp_all add: player_fresh_def new_Player_def)
  have "trace player_fresh = [Emit ''playerCreate'']"
    by (simp add: player_fresh_def new_Player_def)
  with trackEnd_empty_queue [OF h, of env_ok "''finished''"] show ?thesis by simp
qed

text \<open>
  C9 as stated fails for the reason \<^verbatim>\<open>replaced\<close>: on a fresh player (empty queue,
  autoplay off, loop NONE) the handler emits track-end and no queue-empty event.
\<close>

theorem trackEnd_replaced_counterexample:
  "items (queue player_fresh) = [] \<and> isAutoplay player_fresh = False
   \<and> loop player_fresh = NONE
   \<and> fst (eventHandler env_ok (TrackEndEvent ''replaced'') player_fresh) = Inr ()
   \<and> trace (snd (eventHandler env_ok (TrackEndEvent ''replaced'') player_fresh)) =
       [Emit ''playerCreate'', Emit ''trackEnd'']
   \<and> Emit ''queueEmpty''
       \<notin> set (trace (snd (eventHandler env_ok (TrackEndEvent ''replaced'') player_fresh)))"
  by (simp add: eventHandler_def trackEnd_archive_def emit_def Let_def
        player_fresh_def new_Player_def)

text \<open>
  C5, as the code has it: loop mode TRACK, a resolved current track \<open>a\<close>, and a
  \<^verbatim>\<open>TrackEndEvent\<close> whose reason is none of \<^verbatim>\<open>replaced\<close>, \<^verbatim>\<open>loadFailed\<close>,
  \<^verbatim>\<open>cleanup\<close> (so \<^verbatim>\<open>finished\<close> is one). The handler puts \<open>a\<close> back at the front of the
  pending queue and plays it: afterwards \<open>a\<close> is the current and the previous track, the
  pending queue is what it was before the event, track-end was emitted and the node was
  sent \<open>a\<close>'s encoded payload; the handler resolves, with the player playing, exactly when
  that REST call resolves.
\<close>

theorem trackEnd_loop_track:
  assumes "loop p = TRACK" and "currentTrack (queue p) = Some a" and "truthy (track a)"
    and "reason \<noteq> ''replaced''" and "reason \<noteq> ''loadFailed''" and "reason \<noteq> ''cleanup''"
  shows "currentTrack (queue (snd (eventHandler e (TrackEndEvent reason) p))) = Some a
         \<and> items (queue (snd (eventHandler e (TrackEndEvent reason) p))) = items (queue p)
         \<and> previousTrack (queue (snd (eventHandler e (TrackEndEvent reason) p))) = Some a
         \<and> trace (snd (eventHandler e (TrackEndEvent reason) p)) =
             trace p @ [Emit ''trackEnd'', RestUpdatePlayer (guildId p) (TrackEncoded (track a))]
         \<and> fst (eventHandler e (TrackEndEvent reason) p) =
             (if updatePlayer e (trace p @ [Emit ''trackEnd'']) (guildId p) (TrackEncoded (track a))
              then Inr () else Inl RestError)
         \<and> isPlaying (snd (eventHandler e (TrackEndEvent reason) p)) =
             updatePlayer e (trace p @ [Emit ''trackEnd'']) (guildId p) (TrackEncoded (track a))
         \<and> isPaused (snd (eventHandler e (TrackEndEvent reason) p)) =
             (\<not> updatePlayer e (trace p @ [Emit ''trackEnd'']) (guildId p)
                  (TrackEncoded (track a)))"
  using assms
  by (simp add: eventHandler_def trackEnd_archive_def emit_def play_def rest_updatePlayer_def
        Let_def)

theorem trackEnd_loop_track_witness:
  "currentTrack (queue (snd (eventHandler env_ok (TrackEndEvent ''finished'') player_playing_A)))
     = Some track_A
   \<and> items (queue (snd (eventHandler env_ok (TrackEndEvent ''finished'') player_playing_A)))
     = [track_B]
   \<and> fst (eventHandler env_ok (TrackEndEvent ''finished'') player_playing_A) = Inr ()
   \<and> isPlaying (snd (eventHandler env_ok (TrackEndEvent ''finished'') player_playing_A))"
proof -
  have h: "loop player_playing_A = TRACK" "currentTrack (queue player_playing_A) = Some track_A"
    "truthy (track track_A)"
    by (simp_all add: player_playing_A_def track_A_def truthy_def)
  have r: "''finished'' \<noteq> ''replaced''" "''finished'' \<noteq> ''loadFailed''"
    "''finished'' \<noteq> ''cleanup''"
    by simp_all
  have "items (queue player_playing_A) = [track_B]"
    by (simp add: player_playing_A_def)
  with trackEnd_loop_track [OF h r, of env_ok] show ?thesis
    by (simp add: env_ok_def)
qed

text \<open>
  C5 as stated fails: with \<open>[A, B]\<close> pending while \<open>A\<close> is current, the pending queue
  after the event is \<open>[A, B]\<close> again, not \<open>[B]\<close>.
\<close>

theorem trackEnd_loop_track_counterexample:
  "loop player_looping = TRACK
   \<and> items (queue player_looping) = [track_A, track_B]
   \<and> currentTrack (queue player_looping) = Some track_A
   \<and> currentTrack (queue (snd (eventHandler env_ok (TrackEndEvent ''finished'') player_looping)))
       = Some track_A
   \<and> items (queue (snd (eventHandler env_ok (TrackEndEvent ''finished'') player_looping)))
       = [track_A, track_B]
   \<and> items (queue (snd (eventHandler env_ok (TrackEndEvent ''finished'') player_looping)))
       \<noteq> [track_B]"
  by (simp add: eventHandler_def trackEnd_archive_def emit_def play_def rest_updatePlayer_def
        Let_def player_looping_def player_fresh_def new_Player_def env_ok_def truthy_def
        track_A_def track_B_def)

section \<open>Properties of the node driver\<close>

subsection \<open>Closing the socket\<close>

text \<open>
  With \<^verbatim>\<open>withoutEmit = false\<close> nothing is emitted: the listeners are removed and the
  socket is dropped, without a \<^verbatim>\<open>close\<close> call on it.
\<close>

lemma wsClose_false_silent:
  "fst (wsClose False d) = Inr ()
   \<and> effects (snd (wsClose False d)) =
       effects d @ (case wsClient d of None \<Rightarrow> [] | Some ws \<Rightarrow> [WsRemoveAllListeners])
   \<and> wsClient (snd (wsClose False d)) = None"
  by (simp add: wsClose_def wsClose_teardown_def)

text \<open>
  With \<^verbatim>\<open>withoutEmit = true\<close> on an open socket, \<^verbatim>\<open>close(1006, "Self Closed")\<close>
  throws, since 1006 is not a status code a close frame may carry: nothing is emitted, the
  listeners stay, and the driver keeps the socket, now closing.
\<close>

lemma wsClose_true_open_throws:
  assumes "wsClient d = Some ws" and "readyState ws = WS_OPEN"
  shows "wsClose True d =
           (Inl TypeError,
            d\<lparr>wsClient := Some (ws\<lparr>readyState := WS_CLOSING\<rparr>),
              effects := effects d @ [WsClose 1006 ''Self Closed'']\<rparr>)"
  using assms by (simp add: wsClose_def ws_close_def isValidStatusCode_def)

text \<open>
  With \<^verbatim>\<open>withoutEmit = true\<close> on a socket that is not open, \<^verbatim>\<open>nodeDisconnect\<close> is
  emitted before the listeners are removed and the socket is dropped.
\<close>

lemma wsClose_true_not_open_emits:
  assumes "wsClient d = Some ws" and "readyState ws \<noteq> WS_OPEN" and "manager d = Some m"
  shows "fst (wsClose True d) = Inr ()
         \<and> effects (snd (wsClose True d)) =
             effects d @ [WsClose 1006 ''Self Closed'', ManagerEmit ''nodeDisconnect'',
                          WsRemoveAllListeners]
         \<and> wsClient (snd (wsClose True d)) = None"
  using assms
  by (cases "readyState ws") (simp_all add: wsClose_def ws_close_def wsClose_teardown_def)

text \<open>
  C7: \<^verbatim>\<open>wsClose\<close> does the opposite of what \<^verbatim>\<open>withoutEmit\<close> says. On a driver with a
  manager and an open socket, \<^verbatim>\<open>wsClose(false)\<close> removes the listeners and drops the
  socket but emits no \<^verbatim>\<open>nodeDisconnect\<close>, and \<^verbatim>\<open>wsClose(true)\<close> throws a
  \<^verbatim>\<open>TypeError\<close> at \<^verbatim>\<open>close(1006, "Self Closed")\<close>, leaving the listeners and the
  socket in place. On the same driver once its socket has closed, \<^verbatim>\<open>wsClose(true)\<close>
  emits \<^verbatim>\<open>nodeDisconnect\<close>, then removes the listeners and drops the socket.
\<close>

theorem wsClose_emit_inverted:
  "fst (wsClose False driver_open) = Inr ()
   \<and> effects (snd (wsClose False driver_open)) = [WsRemoveAllListeners]
   \<and> wsClient (snd (wsClose False driver_open)) = None
   \<and> fst (wsClose True driver_open) = Inl TypeError
   \<and> effects (snd (wsClose True driver_open)) = [WsClose 1006 ''Self Closed'']
   \<and> wsClient (snd (wsClose True driver_open)) =
       Some \<lparr> ws_url = ''ws://localhost:2333/v4/websocket'', readyState = WS_CLOSING \<rparr>
   \<and> fst (wsClose True driver_closed) = Inr ()
   \<and> effects (snd (wsClose True driver_closed)) =
       [WsClose 1006 ''Self Closed'', ManagerEmit ''nodeDisconnect'', WsRemoveAllListeners]
   \<and> wsClient (snd (wsClose True driver_closed)) = None"
  by (simp add: wsClose_def ws_close_def wsClose_teardown_def isValidStatusCode_def
        driver_open_def driver_closed_def)

subsection \<open>Decode requests\<close>

text \<open>
  The local pass splits the batch, in order, into the tracks the decoder resolved and the
  entries it did not.
\<close>

lemma decode_local_data: "fst (decode_local decoder ts) = List.map_filter decoder ts"
  by (induction ts) (auto simp: List.map_filter_simps Let_def split: prod.splits option.splits)

lemma decode_local_failed:
  "snd (decode_local decoder ts) = filter (\<lambda>t. decoder t = None) ts"
  by (induction ts) (auto simp: Let_def split: prod.splits option.splits)

text \<open>
  A batch with an entry the decoder cannot resolve: the driver makes one call, a POST to
  \<^verbatim>\<open>/v4/decodetracks\<close> with the unresolved entries and no others, and the result is what
  that call gives. The locally decoded tracks have no part in it.
\<close>

lemma request_decode_fallback:
  assumes "isRegistered d" and "path options = ''/decodetracks''"
    and "body options = Some (Batch ts)"
    and "filter (\<lambda>t. decoder t = None) ts \<noteq> []"
  shows "request decoder fetch d options =
     (let c = \<lparr> url = httpUrl d @ ''/v4/decodetracks'', search = [], fetch_method = ''POST'',
                 fetch_headers = AList.merge (defaultHeaders d) (headers options),
                 fetch_body = Some (Batch (filter (\<lambda>t. decoder t = None) ts)) \<rparr>
      in (case fetch c of
            None \<Rightarrow> (Inl FetchRejected, [c])
          | Some res \<Rightarrow>
              (case json res of
                 None \<Rightarrow> (Inl JsonError, [c])
               | Some v \<Rightarrow> (Inr (JsonReply v), [c]))))"
proof -
  obtain data failedTracks where dl: "decode_local decoder ts = (data, failedTracks)"
    by (cases "decode_local decoder ts")
  then have f: "failedTracks = filter (\<lambda>t. decoder t = None) ts"
    using decode_local_failed [of decoder ts] by simp
  with assms(4) have ne: "failedTracks \<noteq> []" by simp
  show ?thesis
    using assms(1-3) dl ne f
    by (simp add: request_def startsWith_def Let_def)
qed

text \<open>A batch the decoder resolves entirely is answered locally, with no call at all.\<close>

lemma request_decode_all_local:
  assumes "isRegistered d" and "path options = ''/decodetracks''"
    and "body options = Some (Batch ts)"
    and "filter (\<lambda>t. decoder t = None) ts = []"
  shows "request decoder fetch d options = (Inr (Decoded (List.map_filter decoder ts)), [])"
proof -
  obtain data failedTracks where dl: "decode_local decoder ts = (data, failedTracks)"
    by (cases "decode_local decoder ts")
  then have "failedTracks = []" and "data = List.map_filter decoder ts"
    using decode_local_failed [of decoder ts] decode_local_data [of decoder ts] assms(4)
    by simp_all
  with assms(1-3) dl show ?thesis
    by (simp add: request_def startsWith_def Let_def)
qed

text \<open>
  C3: a decode request for three entries of which the decoder resolves the first and the
  third. The local pass decodes the two and keeps the malformed one aside; the driver then
  makes one POST to \<^verbatim>\<open>/v4/decodetracks\<close> carrying that entry alone, and returns what this
  call answers. The two locally decoded tracks are not in the result.
\<close>

theorem request_decode_drops_local:
  "decode_local decoder_Q [Some ''QAAAAA'', Some ''malformed'', Some ''QBBBBB'']
     = ([''QAAAAA'', ''QBBBBB''], [Some ''malformed''])
   \<and> request decoder_Q fetch_remote driver_open decode_batch
     = (Inr (JsonReply [''decoded remotely'']),
        [\<lparr> url = ''http://localhost:2333/v4/decodetracks'', search = [],
            fetch_method = ''POST'',
            fetch_headers = [(''Authorization'', ''youshallnotpass''),
                             (''User-Agent'', ''HarmonyLink''),
                             (''Content-Type'', ''application/json'')],
            fetch_body = Some (Batch [Some ''malformed'']) \<rparr>])"
  by (simp add: request_def decode_batch_def driver_open_def decoder_Q_def fetch_remote_def
        isRegistered_def startsWith_def defaultHeaders_def AList.merge_def Let_def)

end
